theory Spec2Isabelle
  imports Main "HOL-Library.Sublist"
begin

section \<open>The Deno plugin of the TypeScript language service\<close>

text \<open>
  The plugin (class \<open>DenoPlugin\<close>) replaces six operations of the TypeScript language
  service and of its host by wrappers that call the original operation and adjust its
  arguments or its result. Each wrapper is modelled as a function of the plugin's
  environment, of the original operation and of the wrapper's own arguments.
\<close>

subsection \<open>JavaScript values and the deepmerge library\<close>

text \<open>
  Compiler options are plain JavaScript objects. An object is an association list in
  insertion order; \<open>assign\<close> is the assignment \<open>destination[key] = value\<close>, which
  replaces the value of a key that is present and appends a new key otherwise.
\<close>

datatype jsvalue =
    JUndefined
  | JNull
  | JBool bool
  | JNum int
  | JStr string
  | JArr "jsvalue list"
  | JObj "(string \<times> jsvalue) list"

type_synonym props = "(string \<times> jsvalue) list"

fun assign :: "props \<Rightarrow> string \<Rightarrow> jsvalue \<Rightarrow> props" where
  "assign [] k v = [(k, v)]"
| "assign ((k', v') # d) k v = (if k' = k then (k, v) # d else (k', v') # assign d k v)"

text \<open>
  The names every object inherits from \<open>Object.prototype\<close>. deepmerge (from version
  4.2) does not copy a source key that the target has only through its prototype chain
  (\<open>propertyIsUnsafe\<close>).
\<close>

definition objectPrototypeKeys :: "string list" where
  "objectPrototypeKeys =
     [''constructor'', ''__defineGetter__'', ''__defineSetter__'', ''hasOwnProperty'',
      ''__lookupGetter__'', ''__lookupSetter__'', ''isPrototypeOf'',
      ''propertyIsEnumerable'', ''toString'', ''valueOf'', ''__proto__'',
      ''toLocaleString'']"

fun isMergeableObject :: "jsvalue \<Rightarrow> bool" where
  "isMergeableObject (JArr _) = True"
| "isMergeableObject (JObj _) = True"
| "isMergeableObject _ = False"

fun hasOwnKey :: "jsvalue \<Rightarrow> string \<Rightarrow> bool" where
  "hasOwnKey (JObj tp) k = (k \<in> set (map fst tp))"
| "hasOwnKey _ k = False"

text \<open>\<open>key in target\<close>; on a primitive target the operator throws and deepmerge
  catches the exception and answers false.\<close>

fun propertyIsOnObject :: "jsvalue \<Rightarrow> string \<Rightarrow> bool" where
  "propertyIsOnObject (JObj tp) k = (k \<in> set (map fst tp) \<or> k \<in> set objectPrototypeKeys)"
| "propertyIsOnObject _ k = False"

definition propertyIsUnsafe :: "jsvalue \<Rightarrow> string \<Rightarrow> bool" where
  "propertyIsUnsafe target k = (propertyIsOnObject target k \<and> \<not> hasOwnKey target k)"

fun getProp :: "jsvalue \<Rightarrow> string \<Rightarrow> jsvalue" where
  "getProp (JObj tp) k = (case map_of tp k of Some v \<Rightarrow> v | None \<Rightarrow> JUndefined)"
| "getProp _ k = JUndefined"

text \<open>
  \<open>cloneUnlessOtherwiseSpecified\<close> with the default options: a mergeable value is
  merged into an empty target of its kind, which copies it member by member (and
  leaves out the keys that an empty object has through its prototype).
\<close>

fun clone :: "jsvalue \<Rightarrow> jsvalue"
  and cloneProps :: "props \<Rightarrow> props \<Rightarrow> props" where
  "clone (JArr xs) = JArr (map clone xs)"
| "clone (JObj sp) = JObj (cloneProps sp [])"
| "clone JUndefined = JUndefined"
| "clone JNull = JNull"
| "clone (JBool b) = JBool b"
| "clone (JNum n) = JNum n"
| "clone (JStr s) = JStr s"
| "cloneProps [] dest = dest"
| "cloneProps ((k, v) # rest) dest =
     cloneProps rest (if k \<in> set objectPrototypeKeys then dest else assign dest k (clone v))"

text \<open>
  \<open>deepmerge(target, source)\<close> for a source that is an object (\<open>deepmergeObj\<close>);
  the plugin merges option objects, and the library recurses into mergeable members
  only. When exactly one of target and source is an array the result is the cloned
  source; two arrays are concatenated and cloned; otherwise \<open>mergeObject\<close> copies the
  target's own members and then walks the source's keys (\<open>mergeKeys\<close>), merging a
  member recursively only if the target has the key and the source's value is
  mergeable.
\<close>

fun deepmergeObj :: "jsvalue \<Rightarrow> props \<Rightarrow> jsvalue"
  and mergeKeys :: "jsvalue \<Rightarrow> props \<Rightarrow> props \<Rightarrow> props" where
  "deepmergeObj target sp =
     (case target of
        JArr ts \<Rightarrow> JObj (cloneProps sp [])
      | JObj tp \<Rightarrow> JObj (mergeKeys target sp (map (\<lambda>kv. (fst kv, clone (snd kv))) tp))
      | _ \<Rightarrow> JObj (mergeKeys target sp []))"
| "mergeKeys target [] dest = dest"
| "mergeKeys target ((k, sv) # rest) dest =
     mergeKeys target rest
       (if propertyIsUnsafe target k then dest
        else if propertyIsOnObject target k \<and> isMergeableObject sv then
          assign dest k
            (case sv of
               JArr ss \<Rightarrow>
                 (case getProp target k of
                    JArr ts \<Rightarrow> JArr (map clone (ts @ ss))
                  | _ \<Rightarrow> clone sv)
             | JObj sp' \<Rightarrow> deepmergeObj (getProp target k) sp'
             | _ \<Rightarrow> clone sv)
        else assign dest k (clone sv))"

subsection \<open>The plugin's environment\<close>

text \<open>
  The values of the TypeScript module (\<open>this.typescript\<close>) that the plugin reads: four
  numeric enum members and the string enum member \<open>Extension.Js\<close>.
\<close>

record typescript =
  JsxEmit_React :: int
  ModuleKind_ESNext :: int
  ModuleResolutionKind_NodeJs :: int
  ScriptTarget_ESNext :: int
  Extension_Js :: string

text \<open>\<open>DenoPluginConfig\<close>, as far as the plugin reads it; \<open>import_map\<close> may be
  undefined (\<open>None\<close>) or the empty string, and both are falsy.\<close>

record DenoPluginConfig =
  enable :: bool
  import_map :: "string option"

text \<open>The TypeScript project: its current directory and its optional \<open>realpath\<close>.\<close>

record project =
  getCurrentDirectory :: string
  realpath :: "(string \<Rightarrow> string) option"

text \<open>A resolution of the Deno module resolver (\<open>core/module_resolver\<close>).\<close>

record ResolvedModule =
  module :: string
  filepath :: string

text \<open>\<open>ts.ResolvedModule\<close> and \<open>ts.ResolvedModuleFull\<close>; the two optional members
  are absent when \<open>None\<close>.\<close>

record ts_ResolvedModuleFull =
  resolvedFileName :: string
  isExternalLibraryImport :: "bool option"
  extension :: "string option"

text \<open>
  What the plugin uses from outside its own file: Node's \<open>path\<close> module, the file
  system (\<open>pathExistsSync\<close>) and the functions of \<open>core/\<close>. \<open>resolveModule\<close> is
  the resolution of one specifier by the resolver that \<open>ModuleResolver.create\<close> builds
  for a containing file and an import map file; \<open>CacheModule_create\<close> gives
  \<open>url.href\<close> of the cache module of a file, if there is one.
\<close>

record env =
  ts :: typescript
  config :: DenoPluginConfig
  proj :: project
  path_isAbsolute :: "string \<Rightarrow> bool"
  path_resolve :: "string \<Rightarrow> string \<Rightarrow> string"
  path_posix_resolve :: "string \<Rightarrow> string \<Rightarrow> string"
  path_dirname :: "string \<Rightarrow> string"
  pathExistsSync :: "string \<Rightarrow> bool"
  resolveModule :: "string \<Rightarrow> string option \<Rightarrow> string \<Rightarrow> ResolvedModule option"
  getDenoDts :: string
  normalizeImportStatement :: "string \<Rightarrow> string \<Rightarrow> string"
  normalizeFilepath :: "string \<Rightarrow> string"
  CacheModule_create :: "string \<Rightarrow> string option"

subsection \<open>Compilation settings\<close>

definition DEFAULT_OPTIONS :: "typescript \<Rightarrow> props" where
  "DEFAULT_OPTIONS t =
     [(''allowJs'', JBool True),
      (''checkJs'', JBool False),
      (''strict'', JBool True),
      (''esModuleInterop'', JBool True),
      (''jsx'', JNum (JsxEmit_React t)),
      (''module'', JNum (ModuleKind_ESNext t)),
      (''moduleResolution'', JNum (ModuleResolutionKind_NodeJs t)),
      (''outDir'', JStr ''$deno$''),
      (''resolveJsonModule'', JBool True),
      (''sourceMap'', JBool True),
      (''stripComments'', JBool True),
      (''target'', JNum (ScriptTarget_ESNext t)),
      (''noEmit'', JBool True),
      (''noEmitHelpers'', JBool True)]"

definition MUST_OVERWRITE_OPTIONS :: "typescript \<Rightarrow> props" where
  "MUST_OVERWRITE_OPTIONS t =
     [(''jsx'', getProp (JObj (DEFAULT_OPTIONS t)) ''jsx''),
      (''module'', getProp (JObj (DEFAULT_OPTIONS t)) ''module''),
      (''moduleResolution'', getProp (JObj (DEFAULT_OPTIONS t)) ''moduleResolution''),
      (''resolveJsonModule'', getProp (JObj (DEFAULT_OPTIONS t)) ''resolveJsonModule''),
      (''strict'', getProp (JObj (DEFAULT_OPTIONS t)) ''strict''),
      (''noEmit'', getProp (JObj (DEFAULT_OPTIONS t)) ''noEmit''),
      (''noEmitHelpers'', getProp (JObj (DEFAULT_OPTIONS t)) ''noEmitHelpers'')]"

text \<open>\<open>merge(x, y)\<close> of two option objects; the source is an object, so this is
  \<open>deepmergeObj\<close>.\<close>

definition merge :: "jsvalue \<Rightarrow> props \<Rightarrow> jsvalue" where
  "merge target sourceProps = deepmergeObj target sourceProps"

text \<open>The wrapper installed as \<open>languageServiceHost.getCompilationSettings\<close>; its
  argument \<open>getCompilationSettings\<close> is the host's original operation.\<close>

definition languageServiceHost_getCompilationSettings ::
    "env \<Rightarrow> (unit \<Rightarrow> props) \<Rightarrow> jsvalue" where
  "languageServiceHost_getCompilationSettings e getCompilationSettings =
     (let projectConfig = getCompilationSettings () in
      if \<not> enable (config e) then JObj projectConfig
      else merge (merge (JObj (DEFAULT_OPTIONS (ts e))) projectConfig)
             (MUST_OVERWRITE_OPTIONS (ts e)))"

subsection \<open>Script file names\<close>

text \<open>The declaration file of Deno is pushed once for every element of the set built
  from \<open>[getDenoDts()]\<close>; the array the host returned is the one that is extended.\<close>

definition languageServiceHost_getScriptFileNames ::
    "env \<Rightarrow> (unit \<Rightarrow> string list) \<Rightarrow> string list" where
  "languageServiceHost_getScriptFileNames e getScriptFileNames =
     (let scriptFileNames = getScriptFileNames () in
      if \<not> enable (config e) then scriptFileNames
      else foldl (\<lambda>names filepath. names @ [filepath]) scriptFileNames
             (remdups [getDenoDts e]))"

subsection \<open>Module resolution\<close>

text \<open>The containing file handed to \<open>ModuleResolver.create\<close>: the real path of the
  file, replaced by the project's directory when it matches \<open>/^untitled:/\<close>.\<close>

definition realContainingFile :: "project \<Rightarrow> string \<Rightarrow> string" where
  "realContainingFile p containingFile =
     (let r = (case realpath p of
                 Some f \<Rightarrow> f containingFile
               | None \<Rightarrow> containingFile)
      in if prefix ''untitled:'' r then getCurrentDirectory p else r)"

definition importMapsFilepath :: "env \<Rightarrow> string option" where
  "importMapsFilepath e =
     (case import_map (config e) of
        None \<Rightarrow> None
      | Some m \<Rightarrow>
          if m = [] then None
          else if path_isAbsolute e m then Some m
          else Some (path_resolve e (getCurrentDirectory (proj e)) m))"

text \<open>
  Modelled from the spec: \<open>ModuleResolver.resolveModules\<close> of
  \<open>core/module_resolver\<close>, which is not among the sources. The spec gives it one
  output per input specifier, in the order of the input, each computed by the
  per-specifier algorithm (here the environment's \<open>resolveModule\<close>).
\<close>

definition resolveModules ::
    "env \<Rightarrow> string \<Rightarrow> string option \<Rightarrow> string list \<Rightarrow> ResolvedModule option list" where
  "resolveModules e containing importMap moduleNames =
     map (resolveModule e containing importMap) moduleNames"

text \<open>\<open>xs[i]\<close> of JavaScript: undefined (\<open>None\<close>) outside the array.\<close>

definition jsIndex :: "'a list \<Rightarrow> nat \<Rightarrow> 'a option" where
  "jsIndex xs i = (if i < length xs then Some (xs ! i) else None)"

text \<open>\<open>xs.map((v, index) => ...)\<close> passes every element with its index.\<close>

definition withIndex :: "'a list \<Rightarrow> ('a \<times> nat) list" where
  "withIndex xs = zip xs [0..<length xs]"

text \<open>The element that replaces an undefined result of the host: the cache file of the
  Deno resolution, when its path is absolute and the file exists.\<close>

definition cacheFallback :: "env \<Rightarrow> ResolvedModule option option \<Rightarrow> ts_ResolvedModuleFull option" where
  "cacheFallback e cacheModule =
     (case cacheModule of
        Some (Some c) \<Rightarrow>
          if path_isAbsolute e (filepath c) \<and> pathExistsSync e (filepath c) then
            Some \<lparr>resolvedFileName = filepath c,
                  isExternalLibraryImport = Some False,
                  extension = Some (Extension_Js (ts e))\<rparr>
          else None
      | _ \<Rightarrow> None)"

text \<open>
  The wrapper installed as \<open>languageServiceHost.resolveModuleNames\<close> (only when the
  host has the operation). \<open>moduleNames[index]\<close> is read at an index of
  \<open>resolvedModules\<close>, which has the length of \<open>moduleNames\<close>, so the read is in range.
\<close>

definition languageServiceHost_resolveModuleNames ::
    "env \<Rightarrow> (string list \<Rightarrow> string \<Rightarrow> 'r \<Rightarrow> ts_ResolvedModuleFull option list) \<Rightarrow>
     string list \<Rightarrow> string \<Rightarrow> 'r \<Rightarrow> ts_ResolvedModuleFull option list" where
  "languageServiceHost_resolveModuleNames e resolveModuleNames moduleNames containingFile rest =
     (if \<not> enable (config e) then resolveModuleNames moduleNames containingFile rest
      else
        let resolvedModules =
              resolveModules e (realContainingFile (proj e) containingFile)
                (importMapsFilepath e) moduleNames
        in map (\<lambda>(v, index).
                  case v of
                    None \<Rightarrow> cacheFallback e (jsIndex resolvedModules index)
                  | Some m \<Rightarrow> Some m)
             (withIndex
                (resolveModuleNames
                   (map (\<lambda>(v, index).
                           case v of
                             Some r \<Rightarrow> module r
                           | None \<Rightarrow> moduleNames ! index)
                      (withIndex resolvedModules))
                   containingFile rest)))"

text \<open>\<open>xs.filter(v => v)\<close> on an array of resolutions keeps the defined ones.\<close>

fun filterDefined :: "'a option list \<Rightarrow> 'a list" where
  "filterDefined [] = []"
| "filterDefined (None # xs) = filterDefined xs"
| "filterDefined (Some x # xs) = x # filterDefined xs"

text \<open>The wrapper installed as \<open>languageServiceHost.resolveTypeReferenceDirectives\<close>
  (only when the host has the operation).\<close>

definition languageServiceHost_resolveTypeReferenceDirectives ::
    "env \<Rightarrow> (string list \<Rightarrow> string \<Rightarrow> 'r \<Rightarrow> 'd list) \<Rightarrow>
     string list \<Rightarrow> string \<Rightarrow> 'r \<Rightarrow> 'd list" where
  "languageServiceHost_resolveTypeReferenceDirectives e resolveTypeReferenceDirectives
       typeDirectiveNames containingFile rest =
     (if \<not> enable (config e) then
        resolveTypeReferenceDirectives typeDirectiveNames containingFile rest
      else
        let resolvedModules =
              filterDefined
                (resolveModules e (realContainingFile (proj e) containingFile)
                   (importMapsFilepath e) typeDirectiveNames)
        in resolveTypeReferenceDirectives (map module resolvedModules) containingFile rest)"

subsection \<open>Semantic diagnostics\<close>

record Diagnostic =
  code :: int

definition ignoreCodeMapInDeno :: "(int \<times> bool) list" where
  "ignoreCodeMapInDeno = [(2691, True), (1103, True)]"

text \<open>The wrapper installed as \<open>languageService.getSemanticDiagnostics\<close>. A code
  that the table does not hold reads as undefined, which is falsy.\<close>

definition languageService_getSemanticDiagnostics ::
    "env \<Rightarrow> (string \<Rightarrow> 'a Diagnostic_scheme list) \<Rightarrow> string \<Rightarrow> 'a Diagnostic_scheme list" where
  "languageService_getSemanticDiagnostics e getSemanticDiagnostics filename =
     (let diagnostics = getSemanticDiagnostics filename in
      if \<not> enable (config e) then diagnostics
      else filter (\<lambda>v. \<not> (case map_of ignoreCodeMapInDeno (code v) of
                              Some b \<Rightarrow> b
                            | None \<Rightarrow> False))
             diagnostics)"

subsection \<open>Completion entry details\<close>

record TextChange =
  newText :: string

record FileTextChanges =
  isNewFile :: "bool option"
  textChanges :: "TextChange list"

record CodeAction =
  changes :: "FileTextChanges list"

record SymbolDisplayPart =
  part_text :: string
  part_kind :: string

record CompletionEntryDetails =
  kindModifiers :: string
  codeActions :: "CodeAction list option"
  source :: "SymbolDisplayPart list option"

text \<open>The body of the loops over \<open>details.codeActions\<close>: every text change of a
  change that is not a new file gets its text normalized.\<close>

definition normalizeChange :: "env \<Rightarrow> string \<Rightarrow> FileTextChanges \<Rightarrow> FileTextChanges" where
  "normalizeChange e fileName change =
     (if isNewFile change = Some True then change
      else change\<lparr>textChanges :=
             map (\<lambda>tc. tc\<lparr>newText := normalizeImportStatement e fileName (newText tc)\<rparr>)
               (textChanges change)\<rparr>)"

definition normalizeCodeActions :: "env \<Rightarrow> string \<Rightarrow> CodeAction list \<Rightarrow> CodeAction list" where
  "normalizeCodeActions e fileName cas =
     map (\<lambda>ca. ca\<lparr>changes := map (normalizeChange e fileName) (changes ca)\<rparr>) cas"

text \<open>The body of the loop over \<open>details.source\<close>: a part of kind \<open>text\<close> that
  names a file of the cache gets the URL of that file.\<close>

definition rewriteSourcePart :: "env \<Rightarrow> string \<Rightarrow> SymbolDisplayPart \<Rightarrow> SymbolDisplayPart" where
  "rewriteSourcePart e fileName part =
     (if part_kind part = ''text'' then
        let absoluteFilepath =
              path_posix_resolve e (path_dirname e fileName) (normalizeFilepath e (part_text part))
        in if path_isAbsolute e absoluteFilepath then
             (case CacheModule_create e absoluteFilepath of
                Some href \<Rightarrow> part\<lparr>part_text := href\<rparr>
              | None \<Rightarrow> part)
           else part
      else part)"

text \<open>The wrapper installed as \<open>languageService.getCompletionEntryDetails\<close>. The
  details object is changed in place and returned; the model returns the changed
  object.\<close>

definition languageService_getCompletionEntryDetails ::
    "env \<Rightarrow>
     (string \<Rightarrow> nat \<Rightarrow> string \<Rightarrow> 'f \<Rightarrow> 's \<Rightarrow> 'p \<Rightarrow> 'a CompletionEntryDetails_scheme option) \<Rightarrow>
     string \<Rightarrow> nat \<Rightarrow> string \<Rightarrow> 'f \<Rightarrow> 's \<Rightarrow> 'p \<Rightarrow> 'a CompletionEntryDetails_scheme option" where
  "languageService_getCompletionEntryDetails e getCompletionEntryDetails
       fileName position name formatOptions src preferences =
     (let details = getCompletionEntryDetails fileName position name formatOptions src preferences in
      if \<not> enable (config e) then details
      else
        case details of
          None \<Rightarrow> None
        | Some d \<Rightarrow>
            if kindModifiers d = ''export'' then
              let d1 = (case codeActions d of
                          Some cas \<Rightarrow>
                            if cas \<noteq> [] then
                              d\<lparr>codeActions := Some (normalizeCodeActions e fileName cas)\<rparr>
                            else d
                        | None \<Rightarrow> d);
                  d2 = (case source d1 of
                          Some parts \<Rightarrow>
                            if parts \<noteq> [] then
                              d1\<lparr>source := Some (map (rewriteSourcePart e fileName) parts)\<rparr>
                            else d1
                        | None \<Rightarrow> d1)
              in Some d2
            else Some d)"

section \<open>References of a type-hint comment\<close>

record Position =
  line :: nat
  character :: nat

record Range =
  range_start :: Position
  range_end :: Position

text \<open>A comment found by \<open>getDenoTypesHintsFromDocument\<close>: the file it names and the
  range of the path inside the comment.\<close>

record DenoTypesHint =
  hint_filepath :: string
  contentRange :: Range

record Location =
  loc_uri :: string
  loc_range :: Range

definition Range_create :: "nat \<Rightarrow> nat \<Rightarrow> nat \<Rightarrow> nat \<Rightarrow> Range" where
  "Range_create sl sc el ec =
     \<lparr>range_start = \<lparr>line = sl, character = sc\<rparr>,
      range_end = \<lparr>line = el, character = ec\<rparr>\<rparr>"

definition Location_create :: "string \<Rightarrow> Range \<Rightarrow> Location" where
  "Location_create u r = \<lparr>loc_uri = u, loc_range = r\<rparr>"

text \<open>The loop over the comments of the document, with the array \<open>locations\<close> as
  accumulator. \<open>pathExists\<close> is the state of the file system and \<open>URI_file\<close> the
  conversion \<open>URI.file(path).toString()\<close>.\<close>

fun collectLocations ::
    "(string \<Rightarrow> bool) \<Rightarrow> (string \<Rightarrow> string) \<Rightarrow> Position \<Rightarrow>
     DenoTypesHint list \<Rightarrow> Location list \<Rightarrow> Location list" where
  "collectLocations pathExists URI_file position [] locations = locations"
| "collectLocations pathExists URI_file position (typeComment # rest) locations =
     (let start = range_start (contentRange typeComment);
          end' = range_end (contentRange typeComment)
      in collectLocations pathExists URI_file position rest
           (if line position \<ge> line start \<and> line position \<le> line end' \<and>
               character position \<ge> character start \<and>
               character position \<le> character end'
            then
              (if pathExists (hint_filepath typeComment) then
                 locations @ [Location_create (URI_file (hint_filepath typeComment))
                                (Range_create 0 0 0 0)]
               else locations)
            else locations))"

text \<open>The handler of \<open>connection.onReferences\<close>: undefined (\<open>None\<close>) when the
  document is not open, the locations otherwise.\<close>

definition onReferences ::
    "(string \<Rightarrow> 'doc option) \<Rightarrow> ('doc \<Rightarrow> DenoTypesHint list) \<Rightarrow>
     (string \<Rightarrow> bool) \<Rightarrow> (string \<Rightarrow> string) \<Rightarrow> string \<Rightarrow> Position \<Rightarrow> Location list option" where
  "onReferences documents_get getDenoTypesHintsFromDocument pathExists URI_file
       textDocument_uri position =
     (case documents_get textDocument_uri of
        None \<Rightarrow> None
      | Some document \<Rightarrow>
          Some (collectLocations pathExists URI_file position
                  (getDenoTypesHintsFromDocument document) []))"

text \<open>
  The reading of "the position lies inside the range" that the claim on references is
  compared with: positions are ordered by line and then by character, and a range
  holds the positions from its start to its end, both included.
\<close>

definition position_le :: "Position \<Rightarrow> Position \<Rightarrow> bool" where
  "position_le p q = (line p < line q \<or> (line p = line q \<and> character p \<le> character q))"

definition inside_range :: "Position \<Rightarrow> Range \<Rightarrow> bool" where
  "inside_range p r = (position_le (range_start r) p \<and> position_le p (range_end r))"

definition single_line :: "Range \<Rightarrow> bool" where
  "single_line r = (line (range_start r) = line (range_end r))"

section \<open>The import map engine\<close>

text \<open>
  Modelled from the spec: the import map engine (\<open>core/import_map\<close>), which is not
  among the sources. An import map is an ordered mapping from specifier prefixes to
  substitution targets, and an ordered mapping from scope prefixes to mappings of that
  kind; both are association lists in the order of declaration.
\<close>

type_synonym mapping = "(string \<times> string) list"

record ImportMap =
  im_imports :: mapping
  im_scopes :: "(string \<times> mapping) list"

definition emptyImportMap :: ImportMap where
  "emptyImportMap = \<lparr>im_imports = [], im_scopes = []\<rparr>"

text \<open>
  Modelled from the spec: the selection of "the entry whose key is the longest prefix"
  of a string, where "ties are resolved by declaration order (first-declared wins)".
  The entries are visited in the order of declaration and the entry kept so far is
  replaced only by an entry with a strictly longer matching key.
\<close>

fun longestPrefixFrom :: "(string \<times> 'a) option \<Rightarrow> (string \<times> 'a) list \<Rightarrow> string \<Rightarrow> (string \<times> 'a) option" where
  "longestPrefixFrom best [] s = best"
| "longestPrefixFrom best (e # es) s =
     longestPrefixFrom
       (if prefix (fst e) s \<and>
           (case best of None \<Rightarrow> True | Some b \<Rightarrow> length (fst b) < length (fst e))
        then Some e else best)
       es s"

definition longestPrefixEntry :: "(string \<times> 'a) list \<Rightarrow> string \<Rightarrow> (string \<times> 'a) option" where
  "longestPrefixEntry es s = longestPrefixFrom None es s"

text \<open>
  Modelled from the spec: the substitution for a matched key. A key that ends with
  \<open>/\<close> has the rest of the specifier appended to its target; a key equal to the
  specifier gives its target as it is. The spec has no rule for a matched key that is
  neither; it is modelled as no substitution.
\<close>

definition endsWithSlash :: "string \<Rightarrow> bool" where
  "endsWithSlash k = (k \<noteq> [] \<and> last k = CHR ''/'')"

definition substitute :: "string \<times> string \<Rightarrow> string \<Rightarrow> string option" where
  "substitute entry specifier =
     (if endsWithSlash (fst entry) then Some (snd entry @ drop (length (fst entry)) specifier)
      else if fst entry = specifier then Some (snd entry)
      else None)"

definition resolveIn :: "mapping \<Rightarrow> string \<Rightarrow> string option" where
  "resolveIn m specifier =
     (case longestPrefixEntry m specifier of
        None \<Rightarrow> None
      | Some entry \<Rightarrow> substitute entry specifier)"

text \<open>
  Modelled from the spec: \<open>resolve(map, specifier, referrerURL)\<close>. The scope with the
  longest prefix of the referrer is selected; its mapping is used when it has a match
  for the specifier, and the top-level imports are used when no scope matches or when
  the selected scope has no match. \<open>None\<close> is the result "unresolved".
\<close>

definition resolve :: "ImportMap \<Rightarrow> string \<Rightarrow> string \<Rightarrow> string option" where
  "resolve m specifier referrerURL =
     (case longestPrefixEntry (im_scopes m) referrerURL of
        None \<Rightarrow> resolveIn (im_imports m) specifier
      | Some scope \<Rightarrow>
          (case longestPrefixEntry (snd scope) specifier of
             None \<Rightarrow> resolveIn (im_imports m) specifier
           | Some entry \<Rightarrow> substitute entry specifier))"

text \<open>
  Modelled from the spec: \<open>load(mapFilePath)\<close>. Reading the file and parsing its text
  are given by the environment (\<open>readFile\<close> is \<open>None\<close> for a missing file and
  \<open>parseJSON\<close> is \<open>None\<close> for malformed JSON). The expected top-level shape is an
  object whose members \<open>imports\<close> and \<open>scopes\<close>, when present, are objects. The spec
  does not say what an entry of the wrong type inside them does; such an entry is left
  out.
\<close>

datatype load_error = MissingFile | MalformedJSON | UnexpectedShape

fun stringEntries :: "props \<Rightarrow> mapping" where
  "stringEntries [] = []"
| "stringEntries ((k, JStr t) # rest) = (k, t) # stringEntries rest"
| "stringEntries (_ # rest) = stringEntries rest"

fun scopeEntries :: "props \<Rightarrow> (string \<times> mapping) list" where
  "scopeEntries [] = []"
| "scopeEntries ((k, JObj ps) # rest) = (k, stringEntries ps) # scopeEntries rest"
| "scopeEntries (_ # rest) = scopeEntries rest"

definition memberObject :: "props \<Rightarrow> string \<Rightarrow> load_error + props" where
  "memberObject members k =
     (case map_of members k of
        None \<Rightarrow> Inr []
      | Some (JObj ps) \<Rightarrow> Inr ps
      | Some _ \<Rightarrow> Inl UnexpectedShape)"

definition shapeOf :: "jsvalue \<Rightarrow> load_error + ImportMap" where
  "shapeOf j =
     (case j of
        JObj members \<Rightarrow>
          (case memberObject members ''imports'' of
             Inl err \<Rightarrow> Inl err
           | Inr ips \<Rightarrow>
               (case memberObject members ''scopes'' of
                  Inl err \<Rightarrow> Inl err
                | Inr sps \<Rightarrow>
                    Inr \<lparr>im_imports = stringEntries ips, im_scopes = scopeEntries sps\<rparr>))
      | _ \<Rightarrow> Inl UnexpectedShape)"

definition readImportMap ::
    "(string \<Rightarrow> string option) \<Rightarrow> (string \<Rightarrow> jsvalue option) \<Rightarrow> string \<Rightarrow> load_error + ImportMap" where
  "readImportMap readFile parseJSON mapFilePath =
     (case readFile mapFilePath of
        None \<Rightarrow> Inl MissingFile
      | Some content \<Rightarrow>
          (case parseJSON content of
             None \<Rightarrow> Inl MalformedJSON
           | Some j \<Rightarrow> shapeOf j))"

definition load ::
    "(string \<Rightarrow> string option) \<Rightarrow> (string \<Rightarrow> jsvalue option) \<Rightarrow> string \<Rightarrow> ImportMap" where
  "load readFile parseJSON mapFilePath =
     (case readImportMap readFile parseJSON mapFilePath of
        Inl err \<Rightarrow> emptyImportMap
      | Inr m \<Rightarrow> m)"

section \<open>Notions used in the statements\<close>

text \<open>The specifier that the wrapper of \<open>resolveModuleNames\<close> hands to the host for a
  module name: the \<open>module\<close> of its Deno resolution, or the name itself when the Deno
  resolver leaves it unresolved.\<close>

definition hostSpecifier :: "env \<Rightarrow> string \<Rightarrow> string \<Rightarrow> string" where
  "hostSpecifier e containingFile name =
     (case resolveModule e (realContainingFile (proj e) containingFile) (importMapsFilepath e) name of
        Some r \<Rightarrow> module r
      | None \<Rightarrow> name)"

text \<open>The locations that one type-hint comment contributes to the references at a
  position: the start of the file it names, when the position is inside the range of the
  path and the file exists.\<close>

definition hintLocations ::
    "(string \<Rightarrow> bool) \<Rightarrow> (string \<Rightarrow> string) \<Rightarrow> Position \<Rightarrow> DenoTypesHint \<Rightarrow> Location list" where
  "hintLocations pathExists URI_file position typeComment =
     (if inside_range position (contentRange typeComment) \<and> pathExists (hint_filepath typeComment)
      then [\<lparr>loc_uri = URI_file (hint_filepath typeComment),
             loc_range = \<lparr>range_start = \<lparr>line = 0, character = 0\<rparr>,
                          range_end = \<lparr>line = 0, character = 0\<rparr>\<rparr>\<rparr>]
      else [])"

text \<open>Entry \<open>i\<close> of an ordered mapping is the first-declared entry among those whose
  key is a prefix of \<open>s\<close> of the greatest length.\<close>

definition firstLongest :: "(string \<times> 'a) list \<Rightarrow> string \<Rightarrow> nat \<Rightarrow> bool" where
  "firstLongest es s i \<longleftrightarrow>
     i < length es \<and> prefix (fst (es ! i)) s \<and>
     (\<forall>j < length es. prefix (fst (es ! j)) s \<longrightarrow>
        length (fst (es ! j)) \<le> length (fst (es ! i)) \<and>
        (length (fst (es ! j)) = length (fst (es ! i)) \<longrightarrow> i \<le> j))"

subsection \<open>A sample environment\<close>

text \<open>
  A project in \<open>/project\<close> with the plugin enabled and no import map. The Deno resolver
  knows the cached remote module \<open>https://deno.land/b.ts\<close> and, for a containing file
  \<open>/project\<close>, the local module \<open>./c.ts\<close>; it leaves every other specifier
  unresolved.
\<close>

definition exampleEnv :: env where
  "exampleEnv =
     \<lparr>ts = \<lparr>JsxEmit_React = 2, ModuleKind_ESNext = 99, ModuleResolutionKind_NodeJs = 2,
             ScriptTarget_ESNext = 99, Extension_Js = ''.js''\<rparr>,
      config = \<lparr>enable = True, import_map = None\<rparr>,
      proj = \<lparr>getCurrentDirectory = ''/project'', realpath = None\<rparr>,
      path_isAbsolute = (\<lambda>p. prefix ''/'' p),
      path_resolve = (\<lambda>d p. d @ ''/'' @ p),
      path_posix_resolve = (\<lambda>d p. d @ ''/'' @ p),
      path_dirname = (\<lambda>p. p),
      pathExistsSync = (\<lambda>p. p = ''/deps/https/deno.land/b.ts''),
      resolveModule = (\<lambda>containing importMap name.
        if name = ''https://deno.land/b.ts'' then
          Some \<lparr>module = ''/deps/https/deno.land/b.ts'',
                filepath = ''/deps/https/deno.land/b.ts''\<rparr>
        else if name = ''./c.ts'' \<and> containing = ''/project'' then
          Some \<lparr>module = ''./c.ts'', filepath = ''/project/c.ts''\<rparr>
        else None),
      getDenoDts = ''/deno/lib.deno.d.ts'',
      normalizeImportStatement = (\<lambda>f t. t),
      normalizeFilepath = (\<lambda>p. p),
      CacheModule_create = (\<lambda>p. None)\<rparr>"

definition disabledEnv :: env where
  "disabledEnv = exampleEnv\<lparr>config := \<lparr>enable = False, import_map = None\<rparr>\<rparr>"

text \<open>A host that resolves \<open>./c.ts\<close> only, and a host of type directives that
  resolves every name but \<open>lodash\<close>; both answer with one entry per name.\<close>

definition exampleHost :: "string list \<Rightarrow> string \<Rightarrow> unit \<Rightarrow> ts_ResolvedModuleFull option list" where
  "exampleHost ns cf rest =
     map (\<lambda>n. if n = ''./c.ts'' then
                 Some \<lparr>resolvedFileName = ''/project/c.ts'', isExternalLibraryImport = None,
                       extension = Some ''.ts''\<rparr>
               else None) ns"

definition exampleTypeHost :: "string list \<Rightarrow> string \<Rightarrow> unit \<Rightarrow> string option list" where
  "exampleTypeHost ns cf rest = map (\<lambda>n. if n = ''lodash'' then None else Some n) ns"

text \<open>Two open documents, each with one type-hint comment on its first line, from
  column 16 to column 28; a document is represented by the file that its comment
  names.\<close>

definition exampleHints :: "string \<Rightarrow> DenoTypesHint list" where
  "exampleHints document =
     [\<lparr>hint_filepath = document,
       contentRange = \<lparr>range_start = \<lparr>line = 0, character = 16\<rparr>,
                       range_end = \<lparr>line = 0, character = 28\<rparr>\<rparr>\<rparr>]"

definition exampleDocuments :: "string \<Rightarrow> string option" where
  "exampleDocuments u =
     (if u = ''file:///project/mod.ts'' then Some ''/project/types.d.ts''
      else if u = ''file:///project/other.ts'' then Some ''/project/missing.d.ts''
      else None)"

definition exampleImports :: mapping where
  "exampleImports = [(''a/'', ''/x/''), (''a/b'', ''/y'')]"

section \<open>Properties of the plugin\<close>

subsection \<open>Auxiliary facts\<close>

lemma length_withIndex: "length (withIndex xs) = length xs"
  by (simp add: withIndex_def)

lemma nth_withIndex: "i < length xs \<Longrightarrow> withIndex xs ! i = (xs ! i, i)"
  by (simp add: withIndex_def)

lemma length_resolveModules: "length (resolveModules e c m names) = length names"
  by (simp add: resolveModules_def)

lemma nth_resolveModules:
  "i < length names \<Longrightarrow> resolveModules e c m names ! i = resolveModule e c m (names ! i)"
  by (simp add: resolveModules_def)

lemma jsIndex_resolveModules:
  "jsIndex (resolveModules e c m names) i =
     (if i < length names then Some (resolveModule e c m (names ! i)) else None)"
  by (simp add: jsIndex_def length_resolveModules nth_resolveModules)

text \<open>Every read \<open>moduleNames[index]\<close> of the wrapper is in range, and the list handed
  to the host is the list of the names' host specifiers.\<close>

lemma host_input:
  "map (\<lambda>(v, index). case v of Some r \<Rightarrow> module r | None \<Rightarrow> names ! index)
     (withIndex (resolveModules e (realContainingFile (proj e) cf) (importMapsFilepath e) names))
   = map (hostSpecifier e cf) names"
  by (rule nth_equalityI)
     (simp_all add: length_withIndex length_resolveModules nth_withIndex nth_resolveModules
        hostSpecifier_def)

lemma resolveModuleNames_enabled:
  assumes "enable (config e)"
  shows "languageServiceHost_resolveModuleNames e h names cf rest =
     map (\<lambda>(v, index).
            case v of
              None \<Rightarrow> cacheFallback e
                (jsIndex (resolveModules e (realContainingFile (proj e) cf)
                            (importMapsFilepath e) names) index)
            | Some m \<Rightarrow> Some m)
       (withIndex (h (map (hostSpecifier e cf) names) cf rest))"
  using assms
  by (simp add: languageServiceHost_resolveModuleNames_def Let_def host_input)

lemma resolveModuleNames_nth:
  assumes "enable (config e)" and "i < length (h (map (hostSpecifier e cf) names) cf rest)"
  shows "languageServiceHost_resolveModuleNames e h names cf rest ! i =
     (case h (map (hostSpecifier e cf) names) cf rest ! i of
        None \<Rightarrow> cacheFallback e
          (jsIndex (resolveModules e (realContainingFile (proj e) cf)
                      (importMapsFilepath e) names) i)
      | Some m \<Rightarrow> Some m)"
  using assms
  by (simp add: resolveModuleNames_enabled length_withIndex nth_withIndex)

subsection \<open>Length and alignment of the resolved module names\<close>

text \<open>
  Claim C1. For every list of module names and every containing file, the wrapper of
  \<open>resolveModuleNames\<close> returns a list of the length of the input, and the entry at
  index \<open>i\<close> is the resolution of the name at index \<open>i\<close>: the host is asked at
  index \<open>i\<close> about the host specifier of that name, and the entry is the host's answer
  at index \<open>i\<close>, or, when the host has none, the cache file of the Deno resolution of
  that name. The host is taken to answer with one entry per specifier, as the
  TypeScript host does.
\<close>

theorem resolveModuleNames_length_aligned:
  assumes "\<forall>ns. length (h ns cf rest) = length ns"
  shows "length (languageServiceHost_resolveModuleNames e h names cf rest) = length names \<and>
    (\<not> enable (config e) \<longrightarrow>
       languageServiceHost_resolveModuleNames e h names cf rest = h names cf rest) \<and>
    (enable (config e) \<longrightarrow>
       (\<forall>i < length names.
          map (hostSpecifier e cf) names ! i = hostSpecifier e cf (names ! i) \<and>
          languageServiceHost_resolveModuleNames e h names cf rest ! i =
            (case h (map (hostSpecifier e cf) names) cf rest ! i of
               None \<Rightarrow> cacheFallback e
                 (Some (resolveModule e (realContainingFile (proj e) cf) (importMapsFilepath e)
                    (names ! i)))
             | Some m \<Rightarrow> Some m)))"
proof (intro conjI impI allI)
  show "length (languageServiceHost_resolveModuleNames e h names cf rest) = length names"
    using assms
    by (simp add: languageServiceHost_resolveModuleNames_def Let_def length_withIndex
        length_resolveModules)
next
  assume "\<not> enable (config e)"
  then show "languageServiceHost_resolveModuleNames e h names cf rest = h names cf rest"
    by (simp add: languageServiceHost_resolveModuleNames_def)
next
  fix i assume "i < length names"
  then show "map (hostSpecifier e cf) names ! i = hostSpecifier e cf (names ! i)" by simp
next
  fix i assume en: "enable (config e)" and i: "i < length names"
  from i assms have "i < length (h (map (hostSpecifier e cf) names) cf rest)" by simp
  with en i show "languageServiceHost_resolveModuleNames e h names cf rest ! i =
            (case h (map (hostSpecifier e cf) names) cf rest ! i of
               None \<Rightarrow> cacheFallback e
                 (Some (resolveModule e (realContainingFile (proj e) cf) (importMapsFilepath e)
                    (names ! i)))
             | Some m \<Rightarrow> Some m)"
    by (simp add: resolveModuleNames_nth jsIndex_resolveModules split: option.split)
qed

theorem resolveModuleNames_length_aligned_witness:
  "(\<forall>ns. length (exampleHost ns ''/project/a.ts'' ()) = length ns) \<and>
   enable (config exampleEnv) \<and>
   length (languageServiceHost_resolveModuleNames exampleEnv exampleHost
         [''https://deno.land/b.ts'', ''./c.ts'', ''lodash''] ''/project/a.ts'' ()) = 3 \<and>
   languageServiceHost_resolveModuleNames exampleEnv exampleHost
         [''https://deno.land/b.ts'', ''./c.ts'', ''lodash''] ''/project/a.ts'' () ! 2 = None"
  using resolveModuleNames_length_aligned [of exampleHost "''/project/a.ts''" "()" exampleEnv
      "[''https://deno.land/b.ts'', ''./c.ts'', ''lodash'']"]
  by (simp add: exampleEnv_def exampleHost_def hostSpecifier_def importMapsFilepath_def
      realContainingFile_def cacheFallback_def)

subsection \<open>Type reference directives\<close>

text \<open>
  Claim C2. The wrapper of \<open>resolveTypeReferenceDirectives\<close> should produce one entry
  per directive name and hand the unresolved names to the host. On the two names
  \<open>lodash\<close> (which the Deno resolver leaves unresolved) and
  \<open>https://deno.land/b.ts\<close> it hands a single specifier to the host and returns a
  single entry, the one of the second name, although the host answers with one entry per
  name; the wrapper of \<open>resolveModuleNames\<close> keeps the unresolved name in place.
\<close>

theorem typeReferenceDirectives_drops_unresolved:
  "languageServiceHost_resolveTypeReferenceDirectives exampleEnv exampleTypeHost
       [''lodash'', ''https://deno.land/b.ts''] ''/project/a.ts'' () =
     [Some ''/deps/https/deno.land/b.ts''] \<and>
   exampleTypeHost [''lodash'', ''/deps/https/deno.land/b.ts''] ''/project/a.ts'' () =
     [None, Some ''/deps/https/deno.land/b.ts'']"
  by (simp add: languageServiceHost_resolveTypeReferenceDirectives_def exampleEnv_def
      exampleTypeHost_def resolveModules_def importMapsFilepath_def realContainingFile_def)

subsection \<open>Untitled documents\<close>

text \<open>
  Claim C6. When the plugin is enabled and the path of the containing file (its real
  path, when the project has \<open>realpath\<close>) matches \<open>/^untitled:/\<close>, the Deno resolver
  is created for the project's current directory, in the wrapper of
  \<open>resolveModuleNames\<close> and in the wrapper of \<open>resolveTypeReferenceDirectives\<close>.
\<close>

theorem untitled_uses_project_directory:
  assumes "enable (config e)"
    and "prefix ''untitled:''
           (case realpath (proj e) of Some f \<Rightarrow> f containingFile | None \<Rightarrow> containingFile)"
  shows "realContainingFile (proj e) containingFile = getCurrentDirectory (proj e) \<and>
    languageServiceHost_resolveModuleNames e h names containingFile rest =
      (let resolvedModules =
             resolveModules e (getCurrentDirectory (proj e)) (importMapsFilepath e) names
       in map (\<lambda>(v, index).
                 case v of
                   None \<Rightarrow> cacheFallback e (jsIndex resolvedModules index)
                 | Some m \<Rightarrow> Some m)
            (withIndex
               (h (map (\<lambda>(v, index).
                          case v of Some r \<Rightarrow> module r | None \<Rightarrow> names ! index)
                     (withIndex resolvedModules))
                  containingFile rest))) \<and>
    languageServiceHost_resolveTypeReferenceDirectives e h' names containingFile rest' =
      h' (map module
            (filterDefined
               (resolveModules e (getCurrentDirectory (proj e)) (importMapsFilepath e) names)))
         containingFile rest'"
proof -
  have r: "realContainingFile (proj e) containingFile = getCurrentDirectory (proj e)"
    using assms(2) by (simp add: realContainingFile_def)
  show ?thesis
    using assms(1)
    by (simp add: r languageServiceHost_resolveModuleNames_def
        languageServiceHost_resolveTypeReferenceDirectives_def)
qed

theorem untitled_uses_project_directory_witness:
  "enable (config exampleEnv) \<and>
   prefix ''untitled:''
     (case realpath (proj exampleEnv) of
        Some f \<Rightarrow> f ''untitled:Untitled-1'' | None \<Rightarrow> ''untitled:Untitled-1'') \<and>
   realContainingFile (proj exampleEnv) ''untitled:Untitled-1'' = ''/project'' \<and>
   languageServiceHost_resolveTypeReferenceDirectives exampleEnv exampleTypeHost
       [''./c.ts''] ''untitled:Untitled-1'' () = [Some ''./c.ts'']"
  using untitled_uses_project_directory [of exampleEnv "''untitled:Untitled-1''"
      exampleHost "[''./c.ts'']" "()" exampleTypeHost "()"]
  by (simp add: exampleEnv_def exampleTypeHost_def resolveModules_def importMapsFilepath_def)

subsection \<open>The cache file in place of an undefined result\<close>

text \<open>
  Claim C8. With the plugin enabled, when the host's result at index \<open>i\<close> is undefined
  and the Deno resolver produced, for the name at index \<open>i\<close>, a resolution whose file
  path is absolute and exists, the wrapper of \<open>resolveModuleNames\<close> returns at index
  \<open>i\<close> a resolved module for that file (extension \<open>Js\<close>, not an external library
  import); in every other case it returns the host's result at index \<open>i\<close>.
\<close>

theorem resolveModuleNames_cache_fallback:
  assumes "enable (config e)"
    and "i < length (h (map (hostSpecifier e cf) names) cf rest)"
  shows "(\<forall>c. h (map (hostSpecifier e cf) names) cf rest ! i = None \<and> i < length names \<and>
            resolveModule e (realContainingFile (proj e) cf) (importMapsFilepath e) (names ! i)
              = Some c \<and>
            path_isAbsolute e (filepath c) \<and> pathExistsSync e (filepath c) \<longrightarrow>
            languageServiceHost_resolveModuleNames e h names cf rest ! i =
              Some \<lparr>resolvedFileName = filepath c,
                    isExternalLibraryImport = Some False,
                    extension = Some (Extension_Js (ts e))\<rparr>) \<and>
         (\<not> (h (map (hostSpecifier e cf) names) cf rest ! i = None \<and> i < length names \<and>
             (\<exists>c. resolveModule e (realContainingFile (proj e) cf) (importMapsFilepath e)
                     (names ! i) = Some c \<and>
                  path_isAbsolute e (filepath c) \<and> pathExistsSync e (filepath c))) \<longrightarrow>
            languageServiceHost_resolveModuleNames e h names cf rest ! i =
              h (map (hostSpecifier e cf) names) cf rest ! i)"
  using assms
  by (auto simp add: resolveModuleNames_nth jsIndex_resolveModules cacheFallback_def
      split: option.split)

theorem resolveModuleNames_cache_fallback_witness:
  "enable (config exampleEnv) \<and>
   0 < length (exampleHost (map (hostSpecifier exampleEnv ''/project/a.ts'')
                  [''https://deno.land/b.ts'', ''./c.ts'', ''lodash'']) ''/project/a.ts'' ()) \<and>
   exampleHost (map (hostSpecifier exampleEnv ''/project/a.ts'')
                  [''https://deno.land/b.ts'', ''./c.ts'', ''lodash'']) ''/project/a.ts'' () ! 0
     = None \<and>
   languageServiceHost_resolveModuleNames exampleEnv exampleHost
       [''https://deno.land/b.ts'', ''./c.ts'', ''lodash''] ''/project/a.ts'' () ! 0 =
     Some \<lparr>resolvedFileName = ''/deps/https/deno.land/b.ts'',
           isExternalLibraryImport = Some False, extension = Some ''.js''\<rparr>"
  using resolveModuleNames_cache_fallback [of exampleEnv 0 exampleHost "''/project/a.ts''"
      "[''https://deno.land/b.ts'', ''./c.ts'', ''lodash'']" "()"]
  by (simp add: exampleEnv_def exampleHost_def hostSpecifier_def importMapsFilepath_def
      realContainingFile_def)

subsection \<open>The disabled plugin\<close>

text \<open>
  Claim C9. When \<open>enable\<close> is false in the plugin's configuration, each of the six
  wrappers (\<open>getCompilationSettings\<close>, \<open>getScriptFileNames\<close>,
  \<open>resolveModuleNames\<close>, \<open>resolveTypeReferenceDirectives\<close>,
  \<open>getSemanticDiagnostics\<close>, \<open>getCompletionEntryDetails\<close>) returns the result of
  the original operation on the same arguments, unchanged.
\<close>

theorem disabled_passthrough:
  assumes "\<not> enable (config e)"
  shows "languageServiceHost_getCompilationSettings e getCompilationSettings =
           JObj (getCompilationSettings ()) \<and>
         languageServiceHost_getScriptFileNames e getScriptFileNames = getScriptFileNames () \<and>
         languageServiceHost_resolveModuleNames e resolveModuleNames moduleNames containingFile rest =
           resolveModuleNames moduleNames containingFile rest \<and>
         languageServiceHost_resolveTypeReferenceDirectives e resolveTypeReferenceDirectives
             typeDirectiveNames containingFile' rest' =
           resolveTypeReferenceDirectives typeDirectiveNames containingFile' rest' \<and>
         languageService_getSemanticDiagnostics e getSemanticDiagnostics filename =
           getSemanticDiagnostics filename \<and>
         languageService_getCompletionEntryDetails e getCompletionEntryDetails
             fileName position name formatOptions src preferences =
           getCompletionEntryDetails fileName position name formatOptions src preferences"
  using assms
  by (simp add: languageServiceHost_getCompilationSettings_def
      languageServiceHost_getScriptFileNames_def languageServiceHost_resolveModuleNames_def
      languageServiceHost_resolveTypeReferenceDirectives_def
      languageService_getSemanticDiagnostics_def languageService_getCompletionEntryDetails_def)

theorem disabled_passthrough_witness:
  "\<not> enable (config disabledEnv) \<and>
   languageServiceHost_getCompilationSettings disabledEnv (\<lambda>u. [(''strict'', JBool False)]) =
     JObj [(''strict'', JBool False)] \<and>
   languageServiceHost_getScriptFileNames disabledEnv (\<lambda>u. [''/project/a.ts'']) =
     [''/project/a.ts''] \<and>
   languageServiceHost_resolveModuleNames disabledEnv exampleHost
       [''https://deno.land/b.ts''] ''/project/a.ts'' () = [None] \<and>
   languageServiceHost_resolveTypeReferenceDirectives disabledEnv exampleTypeHost
       [''lodash'', ''node''] ''/project/a.ts'' () = [None, Some ''node''] \<and>
   languageService_getSemanticDiagnostics disabledEnv (\<lambda>f. [\<lparr>code = 2691\<rparr>]) ''/project/a.ts'' =
     [\<lparr>code = 2691\<rparr>] \<and>
   languageService_getCompletionEntryDetails disabledEnv
       (\<lambda>f p n fo so pr.
          Some \<lparr>kindModifiers = ''export'', codeActions = None,
                source = Some [\<lparr>part_text = ''x'', part_kind = ''text''\<rparr>]\<rparr>)
       ''/project/a.ts'' 0 ''x'' () () () =
     Some \<lparr>kindModifiers = ''export'', codeActions = None,
           source = Some [\<lparr>part_text = ''x'', part_kind = ''text''\<rparr>]\<rparr>"
  using disabled_passthrough [where e = disabledEnv
      and getCompilationSettings = "\<lambda>u. [(''strict'', JBool False)]"
      and getScriptFileNames = "\<lambda>u. [''/project/a.ts'']"
      and resolveModuleNames = exampleHost
      and moduleNames = "[''https://deno.land/b.ts'']"
      and containingFile = "''/project/a.ts''" and rest = "()"
      and resolveTypeReferenceDirectives = exampleTypeHost
      and typeDirectiveNames = "[''lodash'', ''node'']"
      and containingFile' = "''/project/a.ts''" and rest' = "()"
      and getSemanticDiagnostics = "\<lambda>f. [\<lparr>code = 2691\<rparr>]"
      and filename = "''/project/a.ts''"
      and getCompletionEntryDetails = "\<lambda>f p n fo so pr.
          Some \<lparr>kindModifiers = ''export'', codeActions = None,
                source = Some [\<lparr>part_text = ''x'', part_kind = ''text''\<rparr>]\<rparr>"
      and fileName = "''/project/a.ts''" and position = 0 and name = "''x''"
      and formatOptions = "()" and src = "()" and preferences = "()"]
  by (simp add: disabledEnv_def exampleEnv_def exampleHost_def exampleTypeHost_def)

subsection \<open>The options that are always overwritten\<close>

lemma map_of_assign: "map_of (assign d k v) = (map_of d)(k \<mapsto> v)"
  by (induction d k v rule: assign.induct) auto

lemma not_propertyIsUnsafe: "k \<notin> set objectPrototypeKeys \<Longrightarrow> \<not> propertyIsUnsafe t k"
  by (cases t) (simp_all add: propertyIsUnsafe_def)

text \<open>Walking the source's keys leaves alone a key of the destination that the source
  does not have, and sets a key that the source has with a value that is not mergeable
  to the clone of that value.\<close>

lemma mergeKeys_other:
  "k \<notin> fst ` set sp \<Longrightarrow> map_of (mergeKeys t sp d) k = map_of d k"
proof (induction sp arbitrary: d)
  case Nil
  then show ?case by simp
next
  case (Cons a sp)
  obtain k' v' where a: "a = (k', v')" by (cases a)
  from Cons.prems a have ne: "k' \<noteq> k" and rest: "k \<notin> fst ` set sp" by auto
  show ?case
    using Cons.IH [OF rest] ne by (simp add: a map_of_assign)
qed

lemma mergeKeys_primitive_member:
  assumes "distinct (map fst sp)" and "(k, x) \<in> set sp"
    and "\<not> isMergeableObject x" and "k \<notin> set objectPrototypeKeys"
  shows "map_of (mergeKeys t sp d) k = Some (clone x)"
  using assms(1,2)
proof (induction sp arbitrary: d)
  case Nil
  then show ?case by simp
next
  case (Cons a sp)
  obtain k' v' where a: "a = (k', v')" by (cases a)
  show ?case
  proof (cases "(k, x) \<in> set sp")
    case True
    with Cons.prems have "distinct (map fst sp)" by simp
    from Cons.IH [OF this True] show ?thesis by (simp add: a)
  next
    case False
    with Cons.prems a have here: "k' = k" "v' = x" by auto
    from Cons.prems a here have "k \<notin> fst ` set sp" by simp
    then show ?thesis
      using assms(3,4)
      by (simp add: a here mergeKeys_other map_of_assign not_propertyIsUnsafe)
  qed
qed

text \<open>Cloning an object is merging it into the empty object.\<close>

lemma cloneProps_mergeKeys: "cloneProps sp d = mergeKeys (JObj []) sp d"
  by (induction sp arbitrary: d) (auto simp add: propertyIsUnsafe_def)

lemma merge_primitive_member:
  assumes "distinct (map fst sp)" and "(k, x) \<in> set sp"
    and "\<not> isMergeableObject x" and "k \<notin> set objectPrototypeKeys"
  shows "getProp (merge t sp) k = clone x"
proof -
  have "\<exists>t' d. merge t sp = JObj (mergeKeys t' sp d)"
    by (cases t) (auto simp add: merge_def cloneProps_mergeKeys)
  then show ?thesis
    using mergeKeys_primitive_member [OF assms] by auto
qed

text \<open>The seven members of \<open>MUST_OVERWRITE_OPTIONS\<close>: their keys are distinct and are
  not names of \<open>Object.prototype\<close>, and their values are primitive.\<close>

lemma must_members:
  "distinct (map fst (MUST_OVERWRITE_OPTIONS v))"
  "set (MUST_OVERWRITE_OPTIONS v) =
     {(''jsx'', JNum (JsxEmit_React v)), (''module'', JNum (ModuleKind_ESNext v)),
      (''moduleResolution'', JNum (ModuleResolutionKind_NodeJs v)),
      (''resolveJsonModule'', JBool True), (''strict'', JBool True),
      (''noEmit'', JBool True), (''noEmitHelpers'', JBool True)}"
  by (simp_all add: MUST_OVERWRITE_OPTIONS_def DEFAULT_OPTIONS_def)

lemma must_keys_safe:
  "(k, x) \<in> set (MUST_OVERWRITE_OPTIONS v) \<Longrightarrow>
   \<not> isMergeableObject x \<and> k \<notin> set objectPrototypeKeys \<and> clone x = x"
  unfolding must_members(2) objectPrototypeKeys_def by auto

lemma merge_must_overwrite:
  assumes "(k, x) \<in> set (MUST_OVERWRITE_OPTIONS v)"
  shows "getProp (merge t (MUST_OVERWRITE_OPTIONS v)) k = x"
  using merge_primitive_member [OF must_members(1) assms, of t] must_keys_safe [OF assms]
  by simp


text \<open>
  Claim C10. When the plugin is enabled, the compilation settings that the wrapper of
  \<open>getCompilationSettings\<close> returns hold the fixed values of \<open>jsx\<close>, \<open>module\<close>,
  \<open>moduleResolution\<close>, \<open>resolveJsonModule\<close>, \<open>strict\<close>, \<open>noEmit\<close> and
  \<open>noEmitHelpers\<close>, whatever the project's own configuration holds for them.
\<close>

theorem compilationSettings_overwritten:
  assumes "enable (config e)"
  shows "getProp (languageServiceHost_getCompilationSettings e getCompilationSettings) ''jsx'' =
           JNum (JsxEmit_React (ts e)) \<and>
         getProp (languageServiceHost_getCompilationSettings e getCompilationSettings) ''module'' =
           JNum (ModuleKind_ESNext (ts e)) \<and>
         getProp (languageServiceHost_getCompilationSettings e getCompilationSettings)
             ''moduleResolution'' =
           JNum (ModuleResolutionKind_NodeJs (ts e)) \<and>
         getProp (languageServiceHost_getCompilationSettings e getCompilationSettings)
             ''resolveJsonModule'' = JBool True \<and>
         getProp (languageServiceHost_getCompilationSettings e getCompilationSettings) ''strict'' =
           JBool True \<and>
         getProp (languageServiceHost_getCompilationSettings e getCompilationSettings) ''noEmit'' =
           JBool True \<and>
         getProp (languageServiceHost_getCompilationSettings e getCompilationSettings)
             ''noEmitHelpers'' = JBool True"
proof -
  have result: "languageServiceHost_getCompilationSettings e getCompilationSettings =
          merge (merge (JObj (DEFAULT_OPTIONS (ts e))) (getCompilationSettings ()))
            (MUST_OVERWRITE_OPTIONS (ts e))"
    using assms by (simp add: languageServiceHost_getCompilationSettings_def)
  have member: "getProp (languageServiceHost_getCompilationSettings e getCompilationSettings) k = x"
    if "(k, x) \<in> set (MUST_OVERWRITE_OPTIONS (ts e))" for k x
    unfolding result using that by (rule merge_must_overwrite)
  show ?thesis
    by (intro conjI member) (simp_all add: must_members(2))
qed

theorem compilationSettings_overwritten_witness:
  "enable (config exampleEnv) \<and>
   getProp (languageServiceHost_getCompilationSettings exampleEnv
              (\<lambda>u. [(''strict'', JBool False), (''jsx'', JNum 1), (''noEmit'', JBool False),
                     (''paths'', JObj [(''*'', JArr [JStr ''types/*''])])])) ''strict'' =
     JBool True \<and>
   getProp (languageServiceHost_getCompilationSettings exampleEnv
              (\<lambda>u. [(''strict'', JBool False), (''jsx'', JNum 1), (''noEmit'', JBool False),
                     (''paths'', JObj [(''*'', JArr [JStr ''types/*''])])])) ''jsx'' =
     JNum 2"
proof -
  have en: "enable (config exampleEnv)" by (simp add: exampleEnv_def)
  have tsv: "JsxEmit_React (ts exampleEnv) = 2" by (simp add: exampleEnv_def)
  show ?thesis
    using en tsv compilationSettings_overwritten [OF en,
      of "\<lambda>u. [(''strict'', JBool False), (''jsx'', JNum 1), (''noEmit'', JBool False),
             (''paths'', JObj [(''*'', JArr [JStr ''types/*''])])]"]
    by simp
qed

section \<open>Properties of the references\<close>

lemma single_line_inside:
  "single_line r \<Longrightarrow>
   inside_range p r \<longleftrightarrow>
     (line p \<ge> line (range_start r) \<and> line p \<le> line (range_end r) \<and>
      character p \<ge> character (range_start r) \<and> character p \<le> character (range_end r))"
  unfolding single_line_def inside_range_def position_le_def by linarith

text \<open>The loop appends to the locations found so far what each comment contributes,
  in the order of the comments.\<close>

lemma collectLocations_acc:
  "\<forall>c \<in> set cs. single_line (contentRange c) \<Longrightarrow>
   collectLocations pe uf p cs acc = acc @ concat (map (hintLocations pe uf p) cs)"
proof (induction cs arbitrary: acc)
  case Nil
  then show ?case by simp
next
  case (Cons c cs)
  then have sl: "single_line (contentRange c)"
    and rest: "\<forall>c \<in> set cs. single_line (contentRange c)"
    by simp_all
  show ?case
    using Cons.IH [OF rest] single_line_inside [OF sl, of p]
    by (simp add: Let_def hintLocations_def Location_create_def Range_create_def)
qed

text \<open>
  Claim C5. For every open document and every position, the references are, for each
  type-hint comment of the document, exactly one location, with the range from (0,0) to
  (0,0) and the URI of the file that the comment names, when the position is inside the
  range of the comment's path and the file exists, and no location for that comment
  when the position is outside the range or the file does not exist. The path of a
  type-hint comment lies within one line, the comment being a line comment.
\<close>

theorem references_of_hint:
  assumes "documents_get u = Some document"
    and "\<forall>c \<in> set (hints document). single_line (contentRange c)"
  shows "onReferences documents_get hints pathExists URI_file u p =
           Some (concat (map (hintLocations pathExists URI_file p) (hints document)))"
  using assms by (simp add: onReferences_def collectLocations_acc)

theorem references_of_hint_witness:
  "exampleDocuments ''file:///project/mod.ts'' = Some ''/project/types.d.ts'' \<and>
   map (\<lambda>c. single_line (contentRange c)) (exampleHints ''/project/types.d.ts'') = [True] \<and>
   onReferences exampleDocuments exampleHints (\<lambda>f. f = ''/project/types.d.ts'')
       (\<lambda>f. ''file://'' @ f) ''file:///project/mod.ts'' \<lparr>line = 0, character = 20\<rparr> =
     Some [\<lparr>loc_uri = ''file:///project/types.d.ts'',
            loc_range = \<lparr>range_start = \<lparr>line = 0, character = 0\<rparr>,
                         range_end = \<lparr>line = 0, character = 0\<rparr>\<rparr>\<rparr>] \<and>
   onReferences exampleDocuments exampleHints (\<lambda>f. f = ''/project/types.d.ts'')
       (\<lambda>f. ''file://'' @ f) ''file:///project/mod.ts'' \<lparr>line = 0, character = 3\<rparr> =
     Some [] \<and>
   onReferences exampleDocuments exampleHints (\<lambda>f. f = ''/project/types.d.ts'')
       (\<lambda>f. ''file://'' @ f) ''file:///project/other.ts'' \<lparr>line = 0, character = 20\<rparr> =
     Some []"
  using
    references_of_hint [of exampleDocuments "''file:///project/mod.ts''"
      "''/project/types.d.ts''" exampleHints "\<lambda>f. f = ''/project/types.d.ts''"
      "\<lambda>f. ''file://'' @ f" "\<lparr>line = 0, character = 20\<rparr>"]
    references_of_hint [of exampleDocuments "''file:///project/mod.ts''"
      "''/project/types.d.ts''" exampleHints "\<lambda>f. f = ''/project/types.d.ts''"
      "\<lambda>f. ''file://'' @ f" "\<lparr>line = 0, character = 3\<rparr>"]
    references_of_hint [of exampleDocuments "''file:///project/other.ts''"
      "''/project/missing.d.ts''" exampleHints "\<lambda>f. f = ''/project/types.d.ts''"
      "\<lambda>f. ''file://'' @ f" "\<lparr>line = 0, character = 20\<rparr>"]
  by (simp add: exampleDocuments_def exampleHints_def single_line_def hintLocations_def
      inside_range_def position_le_def)

section \<open>Properties of the import map engine\<close>

lemma longestPrefixFrom_snoc:
  "longestPrefixFrom best (es @ [x]) s =
     (let b = longestPrefixFrom best es s in
      if prefix (fst x) s \<and>
         (case b of None \<Rightarrow> True | Some b' \<Rightarrow> length (fst b') < length (fst x))
      then Some x else b)"
  by (induction es arbitrary: best) (simp_all add: Let_def)

text \<open>The selection returns nothing exactly when no key is a prefix, and otherwise the
  first-declared entry among those with a longest matching key. The proof adds the
  entries one at a time at the end of the mapping.\<close>

lemma longestPrefixEntry_char:
  "(longestPrefixEntry es s = None \<and> (\<forall>e \<in> set es. \<not> prefix (fst e) s)) \<or>
   (\<exists>i. longestPrefixEntry es s = Some (es ! i) \<and> firstLongest es s i)"
proof (induction es rule: rev_induct)
  case Nil
  then show ?case by (simp add: longestPrefixEntry_def)
next
  case (snoc x es)
  show ?case
  proof (cases "longestPrefixEntry es s")
    case None
    with snoc have no: "\<forall>e \<in> set es. \<not> prefix (fst e) s" by (auto simp: firstLongest_def)
    show ?thesis
    proof (cases "prefix (fst x) s")
      case True
      have "longestPrefixEntry (es @ [x]) s = Some ((es @ [x]) ! length es)"
        using None True by (simp add: longestPrefixEntry_def longestPrefixFrom_snoc)
      moreover have "firstLongest (es @ [x]) s (length es)"
        using True no by (auto simp: firstLongest_def nth_append)
      ultimately show ?thesis by blast
    next
      case False
      then show ?thesis using None no
        by (simp add: longestPrefixEntry_def longestPrefixFrom_snoc)
    qed
  next
    case (Some b)
    with snoc obtain i where i: "b = es ! i" "firstLongest es s i" by auto
    show ?thesis
    proof (cases "prefix (fst x) s \<and> length (fst b) < length (fst x)")
      case longer: True
      have "longestPrefixEntry (es @ [x]) s = Some ((es @ [x]) ! length es)"
        using Some longer by (simp add: longestPrefixEntry_def longestPrefixFrom_snoc)
      moreover have "firstLongest (es @ [x]) s (length es)"
        unfolding firstLongest_def
      proof (intro conjI allI impI)
        fix j assume j: "j < length (es @ [x])" and p: "prefix (fst ((es @ [x]) ! j)) s"
        show "length (fst ((es @ [x]) ! j)) \<le> length (fst ((es @ [x]) ! length es))"
        proof (cases "j < length es")
          case True
          with p i(2) have "length (fst (es ! j)) \<le> length (fst (es ! i))"
            by (simp add: firstLongest_def nth_append)
          with True longer i(1) show ?thesis by (simp add: nth_append)
        next
          case False
          with j have "j = length es" by simp
          then show ?thesis by simp
        qed
        assume eq: "length (fst ((es @ [x]) ! j)) = length (fst ((es @ [x]) ! length es))"
        show "length es \<le> j"
        proof (rule ccontr)
          assume "\<not> length es \<le> j"
          then have jl: "j < length es" by simp
          with p i(2) have "length (fst (es ! j)) \<le> length (fst (es ! i))"
            by (simp add: firstLongest_def nth_append)
          with jl eq longer i(1) show False by (simp add: nth_append)
        qed
      qed (use longer in simp_all)
      ultimately show ?thesis by blast
    next
      case False
      have "longestPrefixEntry (es @ [x]) s = Some ((es @ [x]) ! i)"
        using Some False i
        by (auto simp add: longestPrefixEntry_def longestPrefixFrom_snoc nth_append
            firstLongest_def)
      moreover have "firstLongest (es @ [x]) s i"
        using False i unfolding firstLongest_def
        by (auto simp: nth_append less_Suc_eq)
      ultimately show ?thesis by blast
    qed
  qed
qed

lemma longestPrefixEntry_Some:
  "longestPrefixEntry es s = Some entry \<Longrightarrow> \<exists>i. entry = es ! i \<and> firstLongest es s i"
  using longestPrefixEntry_char [of es s] by auto

lemma resolveIn_Some:
  "resolveIn mp s = Some t \<Longrightarrow> \<exists>i. firstLongest mp s i \<and> substitute (mp ! i) s = Some t"
proof -
  assume res: "resolveIn mp s = Some t"
  then obtain entry where entry: "longestPrefixEntry mp s = Some entry"
    and sub: "substitute entry s = Some t"
    by (auto simp add: resolveIn_def split: option.splits)
  from longestPrefixEntry_Some [OF entry] obtain i
    where "entry = mp ! i" "firstLongest mp s i" by blast
  with sub show ?thesis by blast
qed

text \<open>
  Claim C3. In the resolution of an import map, the scope is selected against the
  referrer and the key against the specifier by the longest matching prefix, the
  first-declared entry winning among keys of equal length: a selection is empty exactly
  when no key is a prefix, and every resolution comes from a first-longest key of the
  top-level imports or of the mapping of a first-longest scope. For the imports
  \<open>{"a/": "/x/", "a/b": "/y"}\<close>, \<open>a/b\<close> resolves to \<open>/y\<close> and \<open>a/c\<close> to
  \<open>/x/c\<close>.
\<close>

theorem import_map_longest_prefix:
  "(case longestPrefixEntry es s of
      None \<Rightarrow> \<forall>e \<in> set es. \<not> prefix (fst e) s
    | Some entry \<Rightarrow> \<exists>i. entry = es ! i \<and> firstLongest es s i) \<and>
   (\<forall>t. resolve m specifier referrerURL = Some t \<longrightarrow>
      (\<exists>mp i. (mp = im_imports m \<or>
                (\<exists>j. firstLongest (im_scopes m) referrerURL j \<and> mp = snd (im_scopes m ! j))) \<and>
               firstLongest mp specifier i \<and> substitute (mp ! i) specifier = Some t)) \<and>
   resolve \<lparr>im_imports = exampleImports, im_scopes = []\<rparr> ''a/b'' referrerURL = Some ''/y'' \<and>
   resolve \<lparr>im_imports = exampleImports, im_scopes = []\<rparr> ''a/c'' referrerURL = Some ''/x/c''"
proof (intro conjI allI impI)
  show "case longestPrefixEntry es s of
          None \<Rightarrow> \<forall>e \<in> set es. \<not> prefix (fst e) s
        | Some entry \<Rightarrow> \<exists>i. entry = es ! i \<and> firstLongest es s i"
    using longestPrefixEntry_char [of es s] by (auto split: option.split)
next
  fix t assume res: "resolve m specifier referrerURL = Some t"
  show "\<exists>mp i. (mp = im_imports m \<or>
                (\<exists>j. firstLongest (im_scopes m) referrerURL j \<and> mp = snd (im_scopes m ! j))) \<and>
               firstLongest mp specifier i \<and> substitute (mp ! i) specifier = Some t"
  proof (cases "longestPrefixEntry (im_scopes m) referrerURL")
    case None
    with res have "resolveIn (im_imports m) specifier = Some t" by (simp add: resolve_def)
    from resolveIn_Some [OF this] show ?thesis by blast
  next
    case (Some scope)
    from longestPrefixEntry_Some [OF Some] obtain j
      where j: "scope = im_scopes m ! j" "firstLongest (im_scopes m) referrerURL j" by blast
    show ?thesis
    proof (cases "longestPrefixEntry (snd scope) specifier")
      case None
      with res Some have "resolveIn (im_imports m) specifier = Some t"
        by (simp add: resolve_def)
      from resolveIn_Some [OF this] show ?thesis by blast
    next
      case inner: (Some entry)
      from longestPrefixEntry_Some [OF inner] obtain i
        where i: "entry = snd scope ! i" "firstLongest (snd scope) specifier i" by blast
      from res Some inner have "substitute entry specifier = Some t"
        by (simp add: resolve_def)
      with i j show ?thesis by blast
    qed
  qed
next
  show "resolve \<lparr>im_imports = exampleImports, im_scopes = []\<rparr> ''a/b'' referrerURL = Some ''/y''"
    by (simp add: resolve_def resolveIn_def longestPrefixEntry_def exampleImports_def
        substitute_def endsWithSlash_def)
next
  show "resolve \<lparr>im_imports = exampleImports, im_scopes = []\<rparr> ''a/c'' referrerURL = Some ''/x/c''"
    by (simp add: resolve_def resolveIn_def longestPrefixEntry_def exampleImports_def
        substitute_def endsWithSlash_def)
qed

theorem import_map_longest_prefix_witness:
  "longestPrefixEntry exampleImports ''a/b'' = Some (''a/b'', ''/y'') \<and>
   (\<exists>i. (''a/b'', ''/y'') = exampleImports ! i \<and> firstLongest exampleImports ''a/b'' i) \<and>
   resolve \<lparr>im_imports = exampleImports, im_scopes = [(''/pkg/'', [(''a/'', ''/scoped/'')])]\<rparr>
     ''a/c'' ''/pkg/mod.ts'' = Some ''/scoped/c''"
  using import_map_longest_prefix [of exampleImports "''a/b''"
      "\<lparr>im_imports = exampleImports, im_scopes = [(''/pkg/'', [(''a/'', ''/scoped/'')])]\<rparr>"
      "''a/c''" "''/pkg/mod.ts''"]
  by (simp add: longestPrefixEntry_def exampleImports_def resolve_def substitute_def
      endsWithSlash_def)

lemma resolve_empty: "resolve emptyImportMap s r = None"
  by (simp add: resolve_def resolveIn_def emptyImportMap_def longestPrefixEntry_def)

text \<open>
  Claim C7. Loading an import map from a missing file, from malformed JSON or from a
  document that fails the expected top-level shape gives the empty import map, as a
  value and not as a failure; with that map every specifier, and so every bare
  specifier, is unresolved.
\<close>

theorem bad_import_map_is_empty:
  assumes "readFile mapFilePath = None \<or>
           (\<exists>content. readFile mapFilePath = Some content \<and>
              (parseJSON content = None \<or>
               (\<exists>j err. parseJSON content = Some j \<and> shapeOf j = Inl err)))"
  shows "load readFile parseJSON mapFilePath = emptyImportMap \<and>
         (\<forall>specifier referrerURL.
            resolve (load readFile parseJSON mapFilePath) specifier referrerURL = None)"
proof -
  from assms have "\<exists>err. readImportMap readFile parseJSON mapFilePath = Inl err"
    by (auto simp add: readImportMap_def)
  then have "load readFile parseJSON mapFilePath = emptyImportMap"
    by (auto simp add: load_def)
  then show ?thesis by (simp add: resolve_empty)
qed

theorem bad_import_map_is_empty_witness:
  "load (\<lambda>f. Some ''{ imports: '') (\<lambda>c. None) ''/project/import_map.json'' = emptyImportMap \<and>
   load (\<lambda>f. Some ''[]'') (\<lambda>c. Some (JArr [])) ''/project/import_map.json'' = emptyImportMap \<and>
   shapeOf (JObj [(''imports'', JStr ''a'')]) = Inl UnexpectedShape \<and>
   resolve (load (\<lambda>f. None) (\<lambda>c. None) ''/project/import_map.json'') ''lodash''
     ''/project/a.ts'' = None"
  using
    bad_import_map_is_empty [of "\<lambda>f. Some ''{ imports: ''" "''/project/import_map.json''" "\<lambda>c. None"]
    bad_import_map_is_empty [of "\<lambda>f. Some ''[]''" "''/project/import_map.json''" "\<lambda>c. Some (JArr [])"]
    bad_import_map_is_empty [of "\<lambda>f. None" "''/project/import_map.json''" "\<lambda>c. None"]
  by (simp add: shapeOf_def memberObject_def resolve_empty)

end
